theory Spec2Isabelle
  imports Complex_Main
begin

section \<open>DeepLabV3 and its segmentation head\<close>

text \<open>
  The module \<^verbatim>\<open>keras_cv/models/segmentation/deeplab.py\<close> wires layers of the Keras
  framework together. The model follows it at the level at which the module itself
  works: Python values, exceptions, tensor shapes and the order in which layers are
  applied. Numerical contents of tensors are not modelled.
  Python integers are \<open>int\<close>; Python floats (dropout rate, weight decay, losses) are
  idealised as \<open>real\<close>, without rounding.
\<close>

subsection \<open>Python values and exceptions\<close>

datatype error =
    ValueError string
  | TypeError
  | ZeroDivisionError
  | StopIteration
  | KeyError
  | AttributeError
  | OSError string

text \<open>Decimal rendering of a non-negative integer, as \<^verbatim>\<open>"{}".format(i)\<close> gives it.\<close>

fun string_of_nat :: "nat \<Rightarrow> string" where
  "string_of_nat n =
     (if n < 10 then [char_of (48 + n)]
      else string_of_nat (n div 10) @ [char_of (48 + n mod 10)])"

declare string_of_nat.simps [simp del]

text \<open>\<^verbatim>\<open>range(n)\<close>: empty when \<open>n \<le> 0\<close>.\<close>

definition py_range :: "int \<Rightarrow> nat list" where
  "py_range n = [0..<nat n]"

text \<open>Python's substring test \<^verbatim>\<open>sub in s\<close>.\<close>

fun py_in :: "string \<Rightarrow> string \<Rightarrow> bool" where
  "py_in sub [] = (sub = [])"
| "py_in sub (c # cs) = (take (length sub) (c # cs) = sub \<or> py_in sub cs)"

text \<open>
  A Python dict is an association list in insertion order. \<^verbatim>\<open>dict(pairs)\<close> inserts the
  pairs from left to right: a key seen again keeps its position and takes the new value.
\<close>

fun dict_set :: "'k \<Rightarrow> 'v \<Rightarrow> ('k \<times> 'v) list \<Rightarrow> ('k \<times> 'v) list" where
  "dict_set k v [] = [(k, v)]"
| "dict_set k v ((k', v') # d) = (if k' = k then (k, v) # d else (k', v') # dict_set k v d)"

fun py_dict_from :: "('k \<times> 'v) list \<Rightarrow> ('k \<times> 'v) list \<Rightarrow> ('k \<times> 'v) list" where
  "py_dict_from d [] = d"
| "py_dict_from d ((k, v) # kvs) = py_dict_from (dict_set k v d) kvs"

definition py_dict :: "('k \<times> 'v) list \<Rightarrow> ('k \<times> 'v) list" where
  "py_dict kvs = py_dict_from [] kvs"

definition keys :: "('k \<times> 'v) list \<Rightarrow> 'k list" where
  "keys d = map fst d"

subsection \<open>Framework layers and symbolic tensors\<close>

text \<open>
  A tensor shape is (batch, height, width, channels); \<open>None\<close> is an unknown dimension.
  A layer object is its constructor arguments. A symbolic tensor carries its shape and
  the layers that were applied to produce it, oldest first.
\<close>

type_synonym shape4 = "int option \<times> int option \<times> int option \<times> int option"
type_synonym shape3 = "int option \<times> int option \<times> int option"

datatype layer =
    Conv2D (conv_name: string) (conv_filters: int) (conv_kernel_size: int)
           (conv_padding: string) (conv_use_bias: bool)
           (conv_activation: "string option") (conv_dtype: "string option")
  | BatchNormalization string
  | Activation string
  | Dropout real
  | UpSampling2D int int string
  | External string

record tensor =
  shape :: shape4
  history :: "layer list"

text \<open>
  Output shapes as Keras computes them: a stride-1 convolution with padding
  \<^verbatim>\<open>"same"\<close> keeps height and width and sets the channels to its filters (with
  \<^verbatim>\<open>"valid"\<close> it loses \<open>kernel_size - 1\<close>); upsampling multiplies height and
  width by its size; normalisation, activation and dropout keep the shape.
\<close>

fun output_shape :: "layer \<Rightarrow> shape4 \<Rightarrow> shape4" where
  "output_shape (Conv2D n f k p b a d) (bt, h, w, c) =
     (if p = ''same'' then (bt, h, w, Some f)
      else (bt, map_option (\<lambda>x. x - k + 1) h, map_option (\<lambda>x. x - k + 1) w, Some f))"
| "output_shape (UpSampling2D sh sw i) (bt, h, w, c) =
     (bt, map_option (\<lambda>x. sh * x) h, map_option (\<lambda>x. sw * x) w, c)"
| "output_shape (BatchNormalization n) s = s"
| "output_shape (Activation a) s = s"
| "output_shape (Dropout r) s = s"
| "output_shape (External n) s = s"

definition apply_layer :: "layer \<Rightarrow> tensor \<Rightarrow> tensor" where
  "apply_layer l x = \<lparr>shape = output_shape l (shape x), history = history x @ [l]\<rparr>"

definition height_of :: "tensor \<Rightarrow> int option" where
  "height_of x = (case shape x of (bt, h, w, c) \<Rightarrow> h)"

definition width_of :: "tensor \<Rightarrow> int option" where
  "width_of x = (case shape x of (bt, h, w, c) \<Rightarrow> w)"

text \<open>What a layer's \<^verbatim>\<open>call\<close> can be handed.\<close>

datatype py_input =
    PyDict "(int \<times> tensor) list"
  | PyTensor tensor
  | PyList "tensor list"
  | PyNone

text \<open>Scalar configuration values.\<close>

datatype scalar =
    PyInt int
  | PyFloat real
  | PyStr string
  | PyBool bool

subsection \<open>SegmentationHead\<close>

record SegmentationHead =
  num_classes :: int
  convolutions :: int
  filters :: int
  activations :: string
  dropout :: real
  kernel_size :: int
  use_bias :: bool
  activation :: string
  conv_layers :: "layer list"
  bn_layers :: "layer list"
  classification_layer :: layer
  dropout_layer :: layer
  layer_kwargs :: "(string \<times> scalar) list"

text \<open>One round of the loop of \<^verbatim>\<open>SegmentationHead.__init__\<close> (lines 262-276).\<close>

definition init_step :: "int \<Rightarrow> int \<Rightarrow> bool \<Rightarrow> layer list \<times> layer list \<Rightarrow> nat
    \<Rightarrow> layer list \<times> layer list" where
  "init_step fs ks ub acc i =
     (let conv_name = ''segmentation_head_conv_'' @ string_of_nat i;
          convs = fst acc @ [Conv2D conv_name fs ks ''same'' ub None None];
          norm_name = ''segmentation_head_norm_'' @ string_of_nat i;
          bns = snd acc @ [BatchNormalization norm_name]
      in (convs, bns))"

definition SegmentationHead_init ::
    "int \<Rightarrow> int \<Rightarrow> int \<Rightarrow> string \<Rightarrow> real \<Rightarrow> int \<Rightarrow> string \<Rightarrow> bool
      \<Rightarrow> (string \<times> scalar) list \<Rightarrow> SegmentationHead" where
  "SegmentationHead_init nc convs fs acts dr ks act ub kwargs =
     (let built = foldl (init_step fs ks ub) ([], []) (py_range convs)
      in \<lparr>num_classes = nc, convolutions = convs, filters = fs, activations = acts,
          dropout = dr, kernel_size = ks, use_bias = ub, activation = act,
          conv_layers = fst built, bn_layers = snd built,
          classification_layer =
            Conv2D ''segmentation_output'' nc 1 ''same'' False (Some act) (Some ''float32''),
          dropout_layer = Dropout dr,
          layer_kwargs = kwargs\<rparr>)"

text \<open>The loop of \<^verbatim>\<open>call\<close> over \<^verbatim>\<open>zip(self._conv_layers, self._bn_layers)\<close> (lines 307-312).\<close>

text \<open>
  A forward pass threads a state: the layers called so far, oldest first, and the current
  tensor. Calling a layer records the call and replaces the tensor.
\<close>

definition invoke :: "layer \<Rightarrow> layer list \<times> tensor \<Rightarrow> layer list \<times> tensor" where
  "invoke l s = (fst s @ [l], apply_layer l (snd s))"

fun call_blocks :: "SegmentationHead \<Rightarrow> (layer \<times> layer) list \<Rightarrow> layer list \<times> tensor
    \<Rightarrow> layer list \<times> tensor" where
  "call_blocks self [] s = s"
| "call_blocks self ((conv_layer, bn_layer) # rest) s =
     (let s1 = invoke conv_layer s;
          s2 = invoke bn_layer s1;
          s3 = invoke (Activation (activations self)) s2;
          s4 = (if dropout self \<noteq> 0 then invoke (dropout_layer self) s3 else s3)
      in call_blocks self rest s4)"

text \<open>
  \<^verbatim>\<open>SegmentationHead.call\<close> (lines 300-313): the layers it called, and what it returns
  or raises. \<^verbatim>\<open>next(iter(sorted(inputs)))\<close> raises StopIteration on an empty dict.
\<close>

definition call :: "SegmentationHead \<Rightarrow> py_input \<Rightarrow> layer list \<times> (error + tensor)" where
  "call self inputs =
     (case inputs of
        PyDict d \<Rightarrow>
          (case sort (keys d) of
             [] \<Rightarrow> ([], Inl StopIteration)
           | lowest_level # others \<Rightarrow>
               (case map_of d lowest_level of
                  None \<Rightarrow> ([], Inl KeyError)
                | Some x \<Rightarrow>
                    (case invoke (classification_layer self)
                            (call_blocks self (zip (conv_layers self) (bn_layers self)) ([], x)) of
                       (called, y) \<Rightarrow> (called, Inr y))))
      | PyTensor t \<Rightarrow> ([], Inl (ValueError ''Expect inputs to be a dict.''))
      | PyList ts \<Rightarrow> ([], Inl (ValueError ''Expect inputs to be a dict.''))
      | PyNone \<Rightarrow> ([], Inl (ValueError ''Expect inputs to be a dict.'')))"

text \<open>
  \<^verbatim>\<open>SegmentationHead.get_config\<close> (lines 315-327). \<open>base_config\<close> is what
  \<^verbatim>\<open>layers.Layer.get_config\<close> of the framework returns for this object.
\<close>

definition head_get_config ::
    "((string \<times> scalar) list \<Rightarrow> (string \<times> scalar) list) \<Rightarrow> SegmentationHead
      \<Rightarrow> (string \<times> scalar) list" where
  "head_get_config Layer_get_config self =
     (let config =
            [(''num_classes'', PyInt (num_classes self)),
             (''convolutions'', PyInt (convolutions self)),
             (''filters'', PyInt (filters self)),
             (''activations'', PyStr (activations self)),
             (''dropout'', PyFloat (dropout self)),
             (''kernel_size'', PyInt (kernel_size self)),
             (''use_bias'', PyBool (use_bias self)),
             (''activation'', PyStr (activation self))];
          base_config = Layer_get_config (layer_kwargs self)
      in py_dict (base_config @ config))"

subsection \<open>DeepLabV3: construction\<close>

text \<open>
  A layer object supplied by the caller (a backbone, a pooling module): its name, its
  \<^verbatim>\<open>input_shape\<close> attribute (with the batch dimension; reading it raises AttributeError
  on a layer that has no defined input shape, here \<open>None\<close>) and what calling it returns
  or raises.
\<close>

record keras_layer =
  layer_name :: string
  layer_input_shape :: "shape4 option"
  layer_call :: "tensor \<Rightarrow> error + tensor"

text \<open>Any Python object can be passed as \<^verbatim>\<open>backbone\<close>; \<open>NotLayer\<close> carries its repr.\<close>

datatype py_obj =
    Layer keras_layer
  | NotLayer string

datatype head_obj =
    Head SegmentationHead
  | CustomHead string "py_input \<Rightarrow> error + tensor"

fun head_call :: "head_obj \<Rightarrow> py_input \<Rightarrow> error + tensor" where
  "head_call (Head h) inputs = snd (call h inputs)"
| "head_call (CustomHead n f) inputs = f inputs"

text \<open>
  What the module imports and does not define: \<^verbatim>\<open>tf.io.gfile.exists\<close>,
  \<^verbatim>\<open>keras_cv.models.weights.parse_weights\<close>, \<^verbatim>\<open>utils.parse_model_inputs\<close>,
  \<^verbatim>\<open>layers.Input\<close>, the constructor of \<^verbatim>\<open>SpatialPyramidPooling\<close> and
  \<^verbatim>\<open>keras.Model.load_weights\<close>. \<open>parse_weights\<close> returns a path or raises;
  \<open>load_weights\<close> returns the error it raises, if any.
\<close>

record framework =
  gfile_exists :: "string \<Rightarrow> bool"
  parse_weights :: "string \<Rightarrow> bool \<Rightarrow> string \<Rightarrow> error + string"
  parse_model_inputs :: "shape3 \<Rightarrow> tensor option \<Rightarrow> tensor"
  layers_Input :: "tensor option \<Rightarrow> shape3 \<Rightarrow> tensor"
  SpatialPyramidPooling :: "int list \<Rightarrow> keras_layer"
  load_weights :: "string \<Rightarrow> error option"

text \<open>The framework calls made during construction, in order.\<close>

datatype event =
    ParseModelInputs
  | LayersInput
  | BackboneCall
  | PoolingInit
  | PoolingCall
  | UpSamplingCall
  | HeadInit
  | HeadCall
  | ModelInit
  | LoadWeights string

record DeepLabV3_args =
  arg_num_classes :: int
  arg_backbone :: py_obj
  arg_spatial_pyramid_pooling :: "keras_layer option"
  arg_segmentation_head :: "head_obj option"
  arg_segmentation_head_activation :: string
  arg_weight_decay :: real
  arg_input_shape :: shape3
  arg_input_tensor :: "tensor option"
  arg_weights :: "string option"

record DeepLabV3 =
  model_inputs :: tensor
  model_outputs :: tensor
  num_classes :: int
  backbone :: keras_layer
  spatial_pyramid_pooling :: keras_layer
  segmentation_head :: head_obj
  segmentation_head_activation :: string
  weight_decay :: real

definition backbone_msg :: string where
  "backbone_msg = ''Argument `backbone` must be a `keras.layers.Layer` instance.''"

definition weights_msg :: string where
  "weights_msg = ''The `weights` argument should be either `None` or the path to the weights file to be loaded.''"

definition input_shape_msg :: string where
  "input_shape_msg = ''Input shapes for both the backbone and DeepLabV3 cannot be `None`.''"

text \<open>
  Lines 68-75: \<^verbatim>\<open>weights and not tf.io.gfile.exists(parse_weights(weights, True, "deeplabv3"))\<close>.
  \<^verbatim>\<open>None\<close> and the empty string are falsy and skip the check. The result is the error
  raised, if any.
\<close>

definition check_weights :: "framework \<Rightarrow> string option \<Rightarrow> error option" where
  "check_weights fw weights =
     (case weights of
        None \<Rightarrow> None
      | Some w \<Rightarrow>
          if w = [] then None
          else (case parse_weights fw w True ''deeplabv3'' of
                  Inl e \<Rightarrow> Some e
                | Inr path \<Rightarrow>
                    if gfile_exists fw path then None else Some (ValueError weights_msg)))"

definition both_None :: "shape3 \<Rightarrow> bool" where
  "both_None input_shape = (fst input_shape = None \<and> fst (snd input_shape) = None)"

text \<open>Lines 77-81: the inputs, and the input shape taken from the backbone.\<close>

definition resolve_inputs ::
    "framework \<Rightarrow> DeepLabV3_args \<Rightarrow> keras_layer
      \<Rightarrow> event list \<times> (error + shape3 \<times> tensor)" where
  "resolve_inputs fw a bb =
     (let input_shape = arg_input_shape a;
          inputs = parse_model_inputs fw input_shape (arg_input_tensor a)
      in if both_None input_shape
         then (case layer_input_shape bb of
                 None \<Rightarrow> ([ParseModelInputs], Inl AttributeError)
               | Some declared \<Rightarrow>
                   (let input_shape' = snd declared
                    in ([ParseModelInputs, LayersInput],
                        Inr (input_shape', layers_Input fw (arg_input_tensor a) input_shape'))))
         else ([ParseModelInputs], Inr (input_shape, inputs)))"

text \<open>Python's \<^verbatim>\<open>a // b\<close> on values that may be \<^verbatim>\<open>None\<close>.\<close>

definition floordiv :: "int option \<Rightarrow> int option \<Rightarrow> error + int" where
  "floordiv a b =
     (case a of
        None \<Rightarrow> Inl TypeError
      | Some x \<Rightarrow>
          (case b of
             None \<Rightarrow> Inl TypeError
           | Some y \<Rightarrow> if y = 0 then Inl ZeroDivisionError else Inr (x div y)))"

definition default_head :: "int \<Rightarrow> string \<Rightarrow> SegmentationHead" where
  "default_head nc act =
     SegmentationHead_init nc 1 256 ''relu'' (2 / 10) 1 act False
       [(''name'', PyStr ''segmentation_head'')]"

text \<open>Lines 131-140: the weights are loaded, then the attributes are set.\<close>

definition load_and_finish ::
    "framework \<Rightarrow> string option \<Rightarrow> event list \<Rightarrow> DeepLabV3
      \<Rightarrow> event list \<times> (error + DeepLabV3)" where
  "load_and_finish fw weights evs m =
     (case weights of
        None \<Rightarrow> (evs, Inr m)
      | Some w \<Rightarrow>
          (case parse_weights fw w True ''deeplabv3'' of
             Inl e \<Rightarrow> (evs, Inl e)
           | Inr path \<Rightarrow>
               (case load_weights fw path of
                  Some e \<Rightarrow> (evs @ [LoadWeights path], Inl e)
                | None \<Rightarrow> (evs @ [LoadWeights path], Inr m))))"

text \<open>Lines 100-129: upsampling, the head, and the functional model.\<close>

definition upsample_and_head ::
    "framework \<Rightarrow> DeepLabV3_args \<Rightarrow> keras_layer \<Rightarrow> keras_layer \<Rightarrow> event list \<Rightarrow> shape3
      \<Rightarrow> tensor \<Rightarrow> tensor \<Rightarrow> tensor \<Rightarrow> event list \<times> (error + DeepLabV3)" where
  "upsample_and_head fw a bb pooling log3 input_shape inputs feature_map pooled =
     (let height = fst input_shape;
          width = fst (snd input_shape)
      in case floordiv height (height_of feature_map) of
           Inl e \<Rightarrow> (log3, Inl e)
         | Inr sh \<Rightarrow>
             (case floordiv width (width_of feature_map) of
                Inl e \<Rightarrow> (log3, Inl e)
              | Inr sw \<Rightarrow>
                  (let upsampled = apply_layer (UpSampling2D sh sw ''bilinear'') pooled;
                       log4 = log3 @ [UpSamplingCall];
                       head = (case arg_segmentation_head a of
                                 None \<Rightarrow> Head (default_head (arg_num_classes a)
                                                 (arg_segmentation_head_activation a))
                               | Some h \<Rightarrow> h);
                       log5 = (case arg_segmentation_head a of
                                 None \<Rightarrow> log4 @ [HeadInit]
                               | Some h \<Rightarrow> log4)
                   in case head_call head (PyDict [(1, upsampled)]) of
                        Inl e \<Rightarrow> (log5 @ [HeadCall], Inl e)
                      | Inr output \<Rightarrow>
                          load_and_finish fw (arg_weights a) (log5 @ [HeadCall, ModelInit])
                            \<lparr>model_inputs = inputs, model_outputs = output,
                             num_classes = arg_num_classes a,
                             backbone = bb,
                             spatial_pyramid_pooling = pooling,
                             segmentation_head = head,
                             segmentation_head_activation =
                               arg_segmentation_head_activation a,
                             weight_decay = arg_weight_decay a\<rparr>)))"

text \<open>Lines 90-99, once the input shape has passed the check of line 83, and the rest.\<close>

definition assemble ::
    "framework \<Rightarrow> DeepLabV3_args \<Rightarrow> keras_layer \<Rightarrow> event list \<Rightarrow> shape3 \<Rightarrow> tensor
      \<Rightarrow> event list \<times> (error + DeepLabV3)" where
  "assemble fw a bb log0 input_shape inputs =
     (let log1 = log0 @ [BackboneCall]
      in case layer_call bb inputs of
           Inl e \<Rightarrow> (log1, Inl e)
         | Inr feature_map \<Rightarrow>
             (let pooling = (case arg_spatial_pyramid_pooling a of
                               None \<Rightarrow> SpatialPyramidPooling fw [6, 12, 18]
                             | Some p \<Rightarrow> p);
                  log2 = (case arg_spatial_pyramid_pooling a of
                            None \<Rightarrow> log1 @ [PoolingInit]
                          | Some p \<Rightarrow> log1);
                  log3 = log2 @ [PoolingCall]
              in case layer_call pooling feature_map of
                   Inl e \<Rightarrow> (log3, Inl e)
                 | Inr pooled \<Rightarrow>
                     upsample_and_head fw a bb pooling log3 input_shape inputs
                       feature_map pooled))"

text \<open>\<^verbatim>\<open>DeepLabV3.__init__\<close> (lines 48-140): the log of framework calls and the result.\<close>

definition DeepLabV3_init ::
    "framework \<Rightarrow> DeepLabV3_args \<Rightarrow> event list \<times> (error + DeepLabV3)" where
  "DeepLabV3_init fw a =
     (case arg_backbone a of
        NotLayer r \<Rightarrow> ([], Inl (ValueError backbone_msg))
      | Layer bb \<Rightarrow>
          (case check_weights fw (arg_weights a) of
             Some e \<Rightarrow> ([], Inl e)
           | None \<Rightarrow>
               (case resolve_inputs fw a bb of
                  (log0, Inl e) \<Rightarrow> (log0, Inl e)
                | (log0, Inr (input_shape, inputs)) \<Rightarrow>
                    if both_None input_shape then (log0, Inl (ValueError input_shape_msg))
                    else assemble fw a bb log0 input_shape inputs)))"

subsection \<open>DeepLabV3: configuration\<close>

datatype py_value =
    Scalar scalar
  | LayerObj keras_layer
  | HeadObj head_obj
  | NoneObj

text \<open>\<^verbatim>\<open>DeepLabV3.get_config\<close> (lines 177-185).\<close>

definition get_config :: "DeepLabV3 \<Rightarrow> (string \<times> py_value) list" where
  "get_config self =
     [(''num_classes'', Scalar (PyInt (num_classes self))),
      (''backbone'', LayerObj (backbone self)),
      (''spatial_pyramid_pooling'', LayerObj (spatial_pyramid_pooling self)),
      (''segmentation_head'', HeadObj (segmentation_head self)),
      (''segmentation_head_activation'', Scalar (PyStr (segmentation_head_activation self))),
      (''weight_decay'', Scalar (PyFloat (weight_decay self)))]"

subsection \<open>DeepLabV3: training step\<close>

text \<open>
  A trainable variable is its name and its values. \<^verbatim>\<open>tf.nn.l2_loss(t)\<close> is
  \<^verbatim>\<open>sum(t ** 2) / 2\<close>; \<^verbatim>\<open>tf.math.add_n\<close> rejects an empty list.
\<close>

record variable =
  var_name :: string
  var_values :: "real list"

definition l2_loss :: "variable \<Rightarrow> real" where
  "l2_loss var = sum_list (map (\<lambda>x. x * x) (var_values var)) / 2"

definition add_n :: "real list \<Rightarrow> error + real" where
  "add_n xs = (if xs = [] then Inl (ValueError ''inputs must be a list of at least one Tensor'')
               else Inr (sum_list xs))"

text \<open>The loop of lines 165-169.\<close>

fun collect_reg_losses :: "real \<Rightarrow> variable list \<Rightarrow> real list \<Rightarrow> real list" where
  "collect_reg_losses wd [] reg_losses = reg_losses"
| "collect_reg_losses wd (var # vars) reg_losses =
     (if \<not> py_in ''bn'' (var_name var)
      then collect_reg_losses wd vars (reg_losses @ [wd * l2_loss var])
      else collect_reg_losses wd vars reg_losses)"

text \<open>
  The methods of \<^verbatim>\<open>keras.Model\<close> and of the optimizer that the step calls. The state
  of training is the trainable variables and the losses handed to
  \<^verbatim>\<open>optimizer.minimize\<close> so far, oldest first.
\<close>

record ('x, 'y, 'w, 'p, 'm) trainer =
  forward :: "variable list \<Rightarrow> 'x \<Rightarrow> 'p"
  compute_loss :: "'x \<Rightarrow> 'y \<Rightarrow> 'p \<Rightarrow> 'w \<Rightarrow> real"
  minimize :: "real \<Rightarrow> variable list \<Rightarrow> variable list"
  compute_metrics :: "'x \<Rightarrow> 'y \<Rightarrow> 'p \<Rightarrow> 'w \<Rightarrow> 'm"

record train_state =
  trainable_variables :: "variable list"
  minimize_calls :: "real list"

text \<open>\<^verbatim>\<open>DeepLabV3.train_step\<close> (lines 154-175).\<close>

definition train_step ::
    "('x, 'y, 'w, 'p, 'm) trainer \<Rightarrow> DeepLabV3 \<Rightarrow> train_state \<Rightarrow> 'x \<times> 'y \<times> 'w
      \<Rightarrow> error + (train_state \<times> 'm)" where
  "train_step tr self st data =
     (case data of
        (images, y_true, sample_weight) \<Rightarrow>
          (let y_pred = forward tr (trainable_variables st) images;
               total_loss = compute_loss tr images y_true y_pred sample_weight;
               combined =
                 (if weight_decay self \<noteq> 0
                  then (case add_n (collect_reg_losses (weight_decay self)
                                      (trainable_variables st) []) of
                          Inl e \<Rightarrow> Inl e
                        | Inr l2 \<Rightarrow> Inr (total_loss + l2))
                  else Inr total_loss)
           in case combined of
                Inl e \<Rightarrow> Inl e
              | Inr loss \<Rightarrow>
                  Inr (\<lparr>trainable_variables = minimize tr loss (trainable_variables st),
                        minimize_calls = minimize_calls st @ [loss]\<rparr>,
                       compute_metrics tr images y_true y_pred sample_weight)))"

subsection \<open>The specification's words, and example data\<close>

text \<open>
  The block the specification describes for position \<open>i\<close>: convolution, normalisation,
  activation, and dropout only when the rate is nonzero; and the final projection.
\<close>

definition spec_block :: "int \<Rightarrow> int \<Rightarrow> bool \<Rightarrow> string \<Rightarrow> real \<Rightarrow> nat \<Rightarrow> layer list" where
  "spec_block fs ks ub acts dr i =
     [Conv2D (''segmentation_head_conv_'' @ string_of_nat i) fs ks ''same'' ub None None,
      BatchNormalization (''segmentation_head_norm_'' @ string_of_nat i),
      Activation acts] @ (if dr \<noteq> 0 then [Dropout dr] else [])"

definition spec_projection :: "int \<Rightarrow> string \<Rightarrow> layer" where
  "spec_projection nc act =
     Conv2D ''segmentation_output'' nc 1 ''same'' False (Some act) (Some ''float32'')"

text \<open>The feature maps and the head of the example in the docstring of the head.\<close>

definition fpn_p3 :: tensor where
  "fpn_p3 = \<lparr>shape = (Some 2, Some 32, Some 32, Some 3), history = [External ''p3'']\<rparr>"
definition fpn_p4 :: tensor where
  "fpn_p4 = \<lparr>shape = (Some 2, Some 16, Some 16, Some 3), history = [External ''p4'']\<rparr>"
definition fpn_p5 :: tensor where
  "fpn_p5 = \<lparr>shape = (Some 2, Some 8, Some 8, Some 3), history = [External ''p5'']\<rparr>"
definition docstring_head :: SegmentationHead where
  "docstring_head = SegmentationHead_init 11 2 256 ''relu'' 0 3 ''softmax'' False []"

text \<open>
  A framework for the examples. One weights file exists; \<open>parse_weights\<close> returns the
  empty reference and an existing path as they are and raises ValueError on anything
  else; loading succeeds from the existing file only. The inputs are a fresh tensor of
  the given shape unless a tensor is passed. The pooling module needs a known height and
  width, which it keeps. The backbone of the examples is fully convolutional with output
  stride 32 and \<^verbatim>\<open>"same"\<close> padding: a dimension \<open>d\<close> becomes \<open>(d + 31) div 32\<close>, an
  unknown one stays unknown. \<open>pointwise_pooling\<close> is a pooling module a caller can
  supply, a 1 x 1 convolution, which accepts unknown dimensions.
\<close>

definition example_framework :: framework where
  "example_framework =
     \<lparr>gfile_exists = (\<lambda>path. path = ''/models/deeplabv3.h5''),
      parse_weights = (\<lambda>weights include_top model_type.
         if weights = [] \<or> weights = ''/models/deeplabv3.h5'' then Inr weights
         else Inl (ValueError ''The `weights` argument should be either `None`, a the path to the weights file to be loaded, or the name of pre-trained weights'')),
      parse_model_inputs = (\<lambda>input_shape input_tensor.
         case input_tensor of
           None \<Rightarrow> \<lparr>shape = (None, input_shape), history = []\<rparr>
         | Some t \<Rightarrow> t),
      layers_Input = (\<lambda>input_tensor input_shape.
         case input_tensor of
           None \<Rightarrow> \<lparr>shape = (None, input_shape), history = []\<rparr>
         | Some t \<Rightarrow> t),
      SpatialPyramidPooling = (\<lambda>dilation_rates.
         \<lparr>layer_name = ''spatial_pyramid_pooling'',
          layer_input_shape = None,
          layer_call = (\<lambda>x.
            if height_of x = None \<or> width_of x = None
            then Inl (ValueError ''pool_size must be known'')
            else Inr \<lparr>shape = (fst (shape x), height_of x, width_of x, Some 256),
                      history = history x @ [External ''spatial_pyramid_pooling'']\<rparr>)\<rparr>),
      load_weights = (\<lambda>path.
         if path = ''/models/deeplabv3.h5'' then None else Some (OSError path))\<rparr>"

definition stride32_backbone :: "shape4 option \<Rightarrow> keras_layer" where
  "stride32_backbone declared =
     \<lparr>layer_name = ''backbone'',
      layer_input_shape = declared,
      layer_call = (\<lambda>x. Inr \<lparr>shape = (fst (shape x),
                                         map_option (\<lambda>h. (h + 31) div 32) (height_of x),
                                         map_option (\<lambda>w. (w + 31) div 32) (width_of x),
                                         Some 2048),
                                history = history x @ [External ''backbone'']\<rparr>)\<rparr>"

definition pointwise_pooling :: keras_layer where
  "pointwise_pooling =
     \<lparr>layer_name = ''pointwise_pooling'',
      layer_input_shape = None,
      layer_call = (\<lambda>x. Inr \<lparr>shape = (fst (shape x), height_of x, width_of x, Some 256),
                                history = history x @ [External ''pointwise_pooling'']\<rparr>)\<rparr>"

definition example_args ::
    "py_obj \<Rightarrow> keras_layer option \<Rightarrow> shape3 \<Rightarrow> string option \<Rightarrow> DeepLabV3_args" where
  "example_args bb pooling input_shape weights =
     \<lparr>arg_num_classes = 21, arg_backbone = bb, arg_spatial_pyramid_pooling = pooling,
      arg_segmentation_head = None, arg_segmentation_head_activation = ''softmax'',
      arg_weight_decay = 1 / 10000, arg_input_shape = input_shape,
      arg_input_tensor = None, arg_weights = weights\<rparr>"

text \<open>
  What \<^verbatim>\<open>layers.Layer.get_config\<close> of Keras returns (name, trainable, dtype); the keys
  the specification lists for the head; and the model configuration in the
  specification's words, each entry the constructor's argument.
\<close>

definition keras_Layer_get_config :: "(string \<times> scalar) list \<Rightarrow> (string \<times> scalar) list" where
  "keras_Layer_get_config kwargs =
     [(''name'', (case map_of kwargs ''name'' of None \<Rightarrow> PyStr ''segmentation_head'' | Some n \<Rightarrow> n)),
      (''trainable'', PyBool True),
      (''dtype'', PyStr ''float32'')]"

definition spec_head_keys :: "string list" where
  "spec_head_keys = [''num_classes'', ''convolutions'', ''filters'', ''activations'',
                     ''dropout'', ''kernel_size'', ''use_bias'', ''activation'']"

definition constructed_with :: "DeepLabV3_args \<Rightarrow> (string \<times> py_value) list" where
  "constructed_with a =
     [(''num_classes'', Scalar (PyInt (arg_num_classes a))),
      (''backbone'', (case arg_backbone a of Layer l \<Rightarrow> LayerObj l | NotLayer r \<Rightarrow> Scalar (PyStr r))),
      (''spatial_pyramid_pooling'',
         (case arg_spatial_pyramid_pooling a of None \<Rightarrow> NoneObj | Some p \<Rightarrow> LayerObj p)),
      (''segmentation_head'',
         (case arg_segmentation_head a of None \<Rightarrow> NoneObj | Some h \<Rightarrow> HeadObj h)),
      (''segmentation_head_activation'', Scalar (PyStr (arg_segmentation_head_activation a))),
      (''weight_decay'', Scalar (PyFloat (arg_weight_decay a)))]"

text \<open>
  The penalty in the specification's words: the weight-decay coefficient times the sum of
  the squared values of the trainable variables whose name does not indicate a
  normalization parameter. \<open>indicates_normalization\<close> reads a name as that of a
  normalization parameter when it contains \<^verbatim>\<open>"bn"\<close> or \<^verbatim>\<open>"norm"\<close>, which covers the
  names Keras gives to batch normalization and the names lines 273-276 give to the
  normalization layers of the head. Then a trainer whose primary loss is 3, a model, and
  two trainable variables: a convolution kernel and the scale of a batch normalization.
\<close>

definition indicates_normalization :: "string \<Rightarrow> bool" where
  "indicates_normalization name = (py_in ''bn'' name \<or> py_in ''norm'' name)"

definition spec_regularization :: "(string \<Rightarrow> bool) \<Rightarrow> real \<Rightarrow> variable list \<Rightarrow> real" where
  "spec_regularization is_norm wd vars =
     wd * sum_list (map (\<lambda>var. sum_list (map (\<lambda>x. x * x) (var_values var)))
                      (filter (\<lambda>var. \<not> is_norm (var_name var)) vars))"

definition example_trainer :: "(unit, unit, unit, unit, unit) trainer" where
  "example_trainer =
     \<lparr>forward = (\<lambda>vars images. ()),
      compute_loss = (\<lambda>images y_true y_pred sample_weight. 3),
      minimize = (\<lambda>loss vars. vars),
      compute_metrics = (\<lambda>images y_true y_pred sample_weight. ())\<rparr>"

definition example_model :: "real \<Rightarrow> DeepLabV3" where
  "example_model wd =
     \<lparr>model_inputs = fpn_p3, model_outputs = fpn_p3, num_classes = 21,
      backbone = stride32_backbone (Some (None, Some 224, Some 224, Some 3)),
      spatial_pyramid_pooling = SpatialPyramidPooling example_framework [6, 12, 18],
      segmentation_head = Head (default_head 21 ''softmax''),
      segmentation_head_activation = ''softmax'',
      weight_decay = wd\<rparr>"

definition example_variables :: "variable list" where
  "example_variables =
     [\<lparr>var_name = ''segmentation_head_conv_0/kernel:0'', var_values = [2, 0]\<rparr>,
      \<lparr>var_name = ''conv2_block1_1_bn/gamma:0'', var_values = [1, 1]\<rparr>]"

section \<open>Properties\<close>

subsection \<open>Auxiliary facts\<close>

lemma foldl_init_step:
  "foldl (init_step fs ks ub) (cs, bs) xs =
     (cs @ map (\<lambda>i. Conv2D (''segmentation_head_conv_'' @ string_of_nat i) fs ks ''same'' ub None None) xs,
      bs @ map (\<lambda>i. BatchNormalization (''segmentation_head_norm_'' @ string_of_nat i)) xs)"
  by (induction xs arbitrary: cs bs) (simp_all add: init_step_def)

lemma history_apply_layer: "history (apply_layer l x) = history x @ [l]"
  by (simp add: apply_layer_def)

lemma invoke_simps:
  "fst (invoke l s) = fst s @ [l]" "snd (invoke l s) = apply_layer l (snd s)"
  by (simp_all add: invoke_def)

lemma call_blocks_called:
  "fst (call_blocks self ps s) =
     fst s @ concat (map (\<lambda>p. [fst p, snd p, Activation (activations self)] @
                               (if dropout self \<noteq> 0 then [dropout_layer self] else [])) ps)"
  by (induction self ps s rule: call_blocks.induct) (simp_all add: invoke_simps Let_def)

lemma history_call_blocks:
  "history (snd (call_blocks self ps s)) =
     history (snd s) @ concat (map (\<lambda>p. [fst p, snd p, Activation (activations self)] @
                                (if dropout self \<noteq> 0 then [dropout_layer self] else [])) ps)"
  by (induction self ps s rule: call_blocks.induct)
     (simp_all add: invoke_simps history_apply_layer Let_def)

lemma init_layers:
  "conv_layers (SegmentationHead_init nc N fs acts dr ks act ub kw) =
     map (\<lambda>i. Conv2D (''segmentation_head_conv_'' @ string_of_nat i) fs ks ''same'' ub None None) (py_range N)"
  "bn_layers (SegmentationHead_init nc N fs acts dr ks act ub kw) =
     map (\<lambda>i. BatchNormalization (''segmentation_head_norm_'' @ string_of_nat i)) (py_range N)"
  by (simp_all add: SegmentationHead_init_def foldl_init_step Let_def)

lemma init_fields:
  "classification_layer (SegmentationHead_init nc N fs acts dr ks act ub kw) =
     Conv2D ''segmentation_output'' nc 1 ''same'' False (Some act) (Some ''float32'')"
  "activations (SegmentationHead_init nc N fs acts dr ks act ub kw) = acts"
  "dropout (SegmentationHead_init nc N fs acts dr ks act ub kw) = dr"
  "dropout_layer (SegmentationHead_init nc N fs acts dr ks act ub kw) = Dropout dr"
  by (simp_all add: SegmentationHead_init_def Let_def)

lemma string_of_nat_digits:
  "string_of_nat 0 = ''0''" "string_of_nat 1 = ''1''" "string_of_nat 2 = ''2''"
  by code_simp+

lemma hd_sort_Min: "xs \<noteq> [] \<Longrightarrow> hd (sort xs) = Min (set xs)"
proof -
  assume ne: "xs \<noteq> []"
  then have "sort xs \<noteq> []" by (metis length_sort length_0_conv)
  then obtain y ys where s: "sort xs = y # ys" by (cases "sort xs") auto
  have "sorted (y # ys)" using s by (metis sorted_sort)
  then have "\<forall>z \<in> set (y # ys). y \<le> z" by auto
  moreover have "set (y # ys) = set xs" using s by (metis set_sort)
  ultimately have "Min (set xs) = y" by (intro Min_eqI) auto
  then show ?thesis using s by simp
qed

lemma call_dict:
  assumes "d \<noteq> []"
  shows "\<exists>x. map_of d (Min (set (keys d))) = Some x \<and>
           call self (PyDict d) =
             (fst (call_blocks self (zip (conv_layers self) (bn_layers self)) ([], x))
                @ [classification_layer self],
              Inr (apply_layer (classification_layer self)
                    (snd (call_blocks self (zip (conv_layers self) (bn_layers self)) ([], x)))))"
proof -
  have ne: "keys d \<noteq> []" using assms by (simp add: keys_def)
  then have "sort (keys d) \<noteq> []" by (metis length_sort length_0_conv)
  then obtain k ks where s: "sort (keys d) = k # ks" by (cases "sort (keys d)") auto
  have k: "k = Min (set (keys d))" using hd_sort_Min[OF ne] s by simp
  have "k \<in> set (keys d)" using s by (metis set_sort list.set_intros(1))
  then have "k \<in> fst ` set d" by (simp add: keys_def)
  then obtain x where x: "map_of d k = Some x"
    by (metis domD dom_map_of_conv_image_fst)
  show ?thesis using x s k by (auto simp: call_def invoke_def split: prod.splits)
qed

lemma apply_layer_resolution:
  "height_of (apply_layer (Conv2D n f k ''same'' ub a d) x) = height_of x"
  "width_of (apply_layer (Conv2D n f k ''same'' ub a d) x) = width_of x"
  "height_of (apply_layer (BatchNormalization n) x) = height_of x"
  "width_of (apply_layer (BatchNormalization n) x) = width_of x"
  "height_of (apply_layer (Activation s) x) = height_of x"
  "width_of (apply_layer (Activation s) x) = width_of x"
  "height_of (apply_layer (Dropout r) x) = height_of x"
  "width_of (apply_layer (Dropout r) x) = width_of x"
  by (cases "shape x"; simp add: apply_layer_def height_of_def width_of_def)+

lemma apply_upsampling_resolution:
  "height_of (apply_layer (UpSampling2D sh sw i) x) = map_option (\<lambda>h. sh * h) (height_of x)"
  "width_of (apply_layer (UpSampling2D sh sw i) x) = map_option (\<lambda>w. sw * w) (width_of x)"
  by (cases "shape x"; simp add: apply_layer_def height_of_def width_of_def)+

lemma call_blocks_resolution:
  assumes "\<And>l x. l \<in> fst ` set ps \<union> snd ` set ps \<union> {dropout_layer self} \<Longrightarrow>
             height_of (apply_layer l x) = height_of x \<and> width_of (apply_layer l x) = width_of x"
  shows "height_of (snd (call_blocks self ps s)) = height_of (snd s) \<and>
         width_of (snd (call_blocks self ps s)) = width_of (snd s)"
  using assms
proof (induction self ps s rule: call_blocks.induct)
  case (1 self s)
  then show ?case by simp
next
  case (2 self conv_layer bn_layer rest s)
  have k: "\<And>l y. l \<in> {conv_layer, bn_layer, dropout_layer self} \<Longrightarrow>
            height_of (apply_layer l y) = height_of y \<and> width_of (apply_layer l y) = width_of y"
    using "2.prems" by auto
  have r: "\<And>l y. l \<in> fst ` set rest \<union> snd ` set rest \<union> {dropout_layer self} \<Longrightarrow>
            height_of (apply_layer l y) = height_of y \<and> width_of (apply_layer l y) = width_of y"
    using "2.prems" by auto
  show ?case
    using "2.IH" [OF refl refl refl refl r] k
    by (simp add: Let_def invoke_simps apply_layer_resolution)
qed

lemma init_head_call:
  "\<exists>y. snd (call (SegmentationHead_init nc N fs acts dr ks act ub kw) (PyDict [(1, x)])) = Inr y \<and>
       height_of y = height_of x \<and> width_of y = width_of x \<and>
       take (length (history x)) (history y) = history x"
proof -
  let ?h = "SegmentationHead_init nc N fs acts dr ks act ub kw"
  let ?ps = "zip (conv_layers ?h) (bn_layers ?h)"
  let ?y = "apply_layer (classification_layer ?h) (snd (call_blocks ?h ?ps ([], x)))"
  have c: "snd (call ?h (PyDict [(1, x)])) = Inr ?y"
    by (simp add: call_def keys_def invoke_def split: prod.splits)
  have pres: "\<And>l y. l \<in> fst ` set ?ps \<union> snd ` set ?ps \<union> {dropout_layer ?h} \<Longrightarrow>
            height_of (apply_layer l y) = height_of y \<and> width_of (apply_layer l y) = width_of y"
    by (auto simp: init_layers init_fields zip_map_map zip_same_conv_map apply_layer_resolution)
  have "height_of (snd (call_blocks ?h ?ps ([], x))) = height_of x \<and>
        width_of (snd (call_blocks ?h ?ps ([], x))) = width_of x"
    using call_blocks_resolution [where ps = "?ps" and self = "?h" and s = "([], x)", OF pres]
    by simp
  then have r: "height_of ?y = height_of x" "width_of ?y = width_of x"
    by (simp_all add: init_fields apply_layer_resolution)
  have t: "take (length (history x)) (history ?y) = history x"
    by (simp add: history_apply_layer history_call_blocks)
  show ?thesis using c r t by blast
qed

lemma keys_simps:
  "keys [] = []" "keys ((k, v) # d) = k # keys d" "keys (xs @ ys) = keys xs @ keys ys"
  by (simp_all add: keys_def)

lemma keys_dict_set: "set (keys (dict_set k v d)) = insert k (set (keys d))"
proof (induction d)
  case Nil
  show ?case by (simp add: keys_simps)
next
  case (Cons p d)
  obtain k' v' where p: "p = (k', v')" by (cases p)
  show ?case using Cons.IH unfolding p by (auto simp: keys_simps)
qed

lemma map_of_dict_set: "map_of (dict_set k v d) = (map_of d)(k \<mapsto> v)"
  by (induction d) (auto simp: fun_eq_iff)

lemma distinct_dict_set: "distinct (keys d) \<Longrightarrow> distinct (keys (dict_set k v d))"
proof (induction d)
  case Nil
  show ?case by (simp add: keys_simps)
next
  case (Cons p d)
  obtain k' v' where p: "p = (k', v')" by (cases p)
  have d: "distinct (keys d)" "k' \<notin> set (keys d)"
    using Cons.prems unfolding p by (simp_all add: keys_simps)
  show ?case using Cons.IH [OF d(1)] d unfolding p
    by (auto simp: keys_simps keys_dict_set)
qed

lemma keys_py_dict_from:
  "set (keys (py_dict_from d kvs)) = set (keys d) \<union> set (keys kvs)"
proof (induction d kvs rule: py_dict_from.induct)
  case (1 d)
  show ?case by (simp add: keys_simps)
next
  case (2 d k v kvs)
  show ?case using "2.IH" by (simp add: keys_simps keys_dict_set)
qed

lemma map_of_py_dict_from:
  "map_of (py_dict_from d kvs) = map_of d ++ map_of (rev kvs)"
proof (induction d kvs rule: py_dict_from.induct)
  case (1 d)
  show ?case by simp
next
  case (2 d k v kvs)
  show ?case using "2.IH"
    by (simp add: map_of_dict_set map_add_def fun_eq_iff split: option.splits)
qed

lemma distinct_py_dict_from:
  "distinct (keys d) \<Longrightarrow> distinct (keys (py_dict_from d kvs))"
proof (induction d kvs rule: py_dict_from.induct)
  case (1 d)
  then show ?case by simp
next
  case (2 d k v kvs)
  then show ?case by (simp add: distinct_dict_set)
qed

lemma map_of_rev_distinct: "distinct (keys xs) \<Longrightarrow> map_of (rev xs) = map_of xs"
proof -
  assume d: "distinct (keys xs)"
  then have "distinct (map fst (rev xs))" by (simp add: keys_def rev_map [symmetric])
  moreover have "distinct (map fst xs)" using d by (simp add: keys_def)
  moreover have "set (rev xs) = set xs" by simp
  ultimately show ?thesis by (simp only: map_of_inject_set)
qed

lemma collect_reg_losses_eq:
  "collect_reg_losses wd vars acc =
     acc @ map (\<lambda>var. wd * l2_loss var) (filter (\<lambda>var. \<not> py_in ''bn'' (var_name var)) vars)"
  by (induction wd vars acc rule: collect_reg_losses.induct) simp_all

lemma sum_list_scale:
  "sum_list (map (\<lambda>x. c * f x) xs) = (c::real) * sum_list (map f xs)"
  by (induction xs) (simp_all add: algebra_simps)

lemma example_construction:
  "DeepLabV3_init example_framework
     (example_args (Layer (stride32_backbone (Some (None, Some 224, Some 224, Some 3)))) None
        (Some 224, Some 224, Some 3) None) =
   ([ParseModelInputs, BackboneCall, PoolingInit, PoolingCall, UpSamplingCall, HeadInit,
     HeadCall, ModelInit],
    Inr \<lparr>model_inputs = \<lparr>shape = (None, Some 224, Some 224, Some 3), history = []\<rparr>,
         model_outputs =
           \<lparr>shape = (None, Some 224, Some 224, Some 21),
            history = [External ''backbone'', External ''spatial_pyramid_pooling'',
                       UpSampling2D 32 32 ''bilinear'',
                       Conv2D ''segmentation_head_conv_0'' 256 1 ''same'' False None None,
                       BatchNormalization ''segmentation_head_norm_0'',
                       Activation ''relu'', Dropout (2 / 10),
                       Conv2D ''segmentation_output'' 21 1 ''same'' False (Some ''softmax'')
                         (Some ''float32'')]\<rparr>,
         num_classes = 21,
         backbone = stride32_backbone (Some (None, Some 224, Some 224, Some 3)),
         spatial_pyramid_pooling = SpatialPyramidPooling example_framework [6, 12, 18],
         segmentation_head = Head (default_head 21 ''softmax''),
         segmentation_head_activation = ''softmax'',
         weight_decay = 1 / 10000\<rparr>)"
  by (simp add: DeepLabV3_init_def example_args_def check_weights_def
        resolve_inputs_def both_None_def assemble_def upsample_and_head_def floordiv_def
        Let_def load_and_finish_def invoke_def
        default_head_def call_def keys_def init_layers init_fields py_range_def
        apply_layer_def string_of_nat_digits
        example_framework_def stride32_backbone_def height_of_def width_of_def)

subsection \<open>DeepLabV3\<close>

text \<open>
  Claim C1, as amended. Take a layer backbone, no weights reference, a positive number of
  classes, a fully resolved input shape \<open>(H, W)\<close> and the default head (or a head built
  by \<open>SegmentationHead_init\<close>). Let the backbone return a feature map of height \<open>fh\<close>
  and width \<open>fwd\<close>, both positive and at most \<open>H\<close> and \<open>W\<close>, and the pooling module
  return a map of height \<open>ph\<close> and width \<open>pw\<close>. Then construction succeeds; the output
  is what the head returns on the pooled map upsampled bilinearly by \<open>H div fh\<close> and
  \<open>W div fwd\<close>, the upsampling being the first layer applied after pooling; and the
  output has height \<open>(H div fh) * ph\<close> and width \<open>(W div fwd) * pw\<close>. These are \<open>H\<close>
  and \<open>W\<close> when pooling keeps the resolution of the feature map and \<open>fh\<close> divides
  \<open>H\<close> and \<open>fwd\<close> divides \<open>W\<close>.
\<close>

theorem output_resolution_floor:
  assumes bb: "arg_backbone a = Layer bb"
    and wt: "arg_weights a = None"
    and nc: "0 < arg_num_classes a"
    and sh: "arg_input_shape a = (Some H, Some W, c)"
    and hd: "arg_segmentation_head a = None \<and>
               h = default_head (arg_num_classes a) (arg_segmentation_head_activation a) \<or>
             arg_segmentation_head a = Some (Head h) \<and>
               h = SegmentationHead_init nc N fs acts dr ks act ub kw"
    and fm: "layer_call bb (parse_model_inputs fw (arg_input_shape a) (arg_input_tensor a)) =
               Inr feature_map"
    and pl: "layer_call (case arg_spatial_pyramid_pooling a of
                           None \<Rightarrow> SpatialPyramidPooling fw [6, 12, 18]
                         | Some p \<Rightarrow> p) feature_map = Inr pooled"
    and fh: "height_of feature_map = Some fh" "0 < fh" "fh \<le> H"
    and fw: "width_of feature_map = Some fwd" "0 < fwd" "fwd \<le> W"
    and ph: "height_of pooled = Some ph" "width_of pooled = Some pw"
  shows "\<exists>evs m. DeepLabV3_init fw a = (evs, Inr m) \<and>
           snd (call h (PyDict [(1, apply_layer (UpSampling2D (H div fh) (W div fwd) ''bilinear'')
                                      pooled)])) = Inr (model_outputs m) \<and>
           take (Suc (length (history pooled))) (history (model_outputs m)) =
             history pooled @ [UpSampling2D (H div fh) (W div fwd) ''bilinear''] \<and>
           height_of (model_outputs m) = Some ((H div fh) * ph) \<and>
           width_of (model_outputs m) = Some ((W div fwd) * pw) \<and>
           (ph = fh \<and> pw = fwd \<and> fh dvd H \<and> fwd dvd W \<longrightarrow>
              height_of (model_outputs m) = Some H \<and> width_of (model_outputs m) = Some W)"
proof -
  let ?up = "apply_layer (UpSampling2D (H div fh) (W div fwd) ''bilinear'') pooled"
  let ?head = "case arg_segmentation_head a of
                 None \<Rightarrow> Head (default_head (arg_num_classes a)
                                 (arg_segmentation_head_activation a))
               | Some h \<Rightarrow> h"
  have hh: "?head = Head h" using hd by auto
  have up: "height_of ?up = Some ((H div fh) * ph)" "width_of ?up = Some ((W div fwd) * pw)"
    "history ?up = history pooled @ [UpSampling2D (H div fh) (W div fwd) ''bilinear'']"
    by (simp_all add: apply_upsampling_resolution ph history_apply_layer)
  have "\<exists>y. snd (call h (PyDict [(1, ?up)])) = Inr y \<and>
             height_of y = height_of ?up \<and> width_of y = width_of ?up \<and>
             take (length (history ?up)) (history y) = history ?up"
    using hd init_head_call by (auto simp: default_head_def)
  then obtain y where y: "snd (call h (PyDict [(1, ?up)])) = Inr y"
    "height_of y = Some ((H div fh) * ph)" "width_of y = Some ((W div fwd) * pw)"
    "take (Suc (length (history pooled))) (history y) =
       history pooled @ [UpSampling2D (H div fh) (W div fwd) ''bilinear'']"
    using up by auto
  have hc: "head_call ?head (PyDict [(1, ?up)]) = Inr y"
    using hh y(1) by simp
  have "\<exists>evs m. DeepLabV3_init fw a = (evs, Inr m) \<and> model_outputs m = y"
    using bb wt sh fm pl fh fw hc
    by (simp add: DeepLabV3_init_def check_weights_def resolve_inputs_def both_None_def
          assemble_def upsample_and_head_def load_and_finish_def floordiv_def Let_def)
  then show ?thesis using y by auto
qed

theorem output_resolution_floor_witness:
  "\<exists>evs m. DeepLabV3_init example_framework
       (example_args (Layer (stride32_backbone (Some (None, Some 224, Some 224, Some 3)))) None
          (Some 224, Some 224, Some 3) None) = (evs, Inr m) \<and>
     take 3 (history (model_outputs m)) =
       [External ''backbone'', External ''spatial_pyramid_pooling'',
        UpSampling2D 32 32 ''bilinear''] \<and>
     height_of (model_outputs m) = Some 224 \<and> width_of (model_outputs m) = Some 224"
proof -
  let ?bb = "stride32_backbone (Some (None, Some 224, Some 224, Some 3))"
  let ?a = "example_args (Layer ?bb) None (Some 224, Some 224, Some 3) None"
  let ?fm = "\<lparr>shape = (None, Some 7, Some 7, Some 2048), history = [External ''backbone'']\<rparr>"
  let ?pooled = "\<lparr>shape = (None, Some 7, Some 7, Some 256),
                  history = [External ''backbone'', External ''spatial_pyramid_pooling'']\<rparr>"
  have 1: "arg_backbone ?a = Layer ?bb" by (simp add: example_args_def)
  have 2: "arg_weights ?a = None" by (simp add: example_args_def)
  have 3: "0 < arg_num_classes ?a" by (simp add: example_args_def)
  have 4: "arg_input_shape ?a = (Some 224, Some 224, Some 3)" by (simp add: example_args_def)
  have 5: "arg_segmentation_head ?a = None \<and>
             default_head 21 ''softmax'' =
               default_head (arg_num_classes ?a) (arg_segmentation_head_activation ?a) \<or>
           arg_segmentation_head ?a = Some (Head (default_head 21 ''softmax'')) \<and>
             default_head 21 ''softmax'' = SegmentationHead_init 0 0 0 [] 0 0 [] False []"
    by (simp add: example_args_def)
  have 6: "layer_call ?bb (parse_model_inputs example_framework (arg_input_shape ?a)
             (arg_input_tensor ?a)) = Inr ?fm"
    by (simp add: example_args_def example_framework_def stride32_backbone_def
          height_of_def width_of_def)
  have 7: "layer_call (case arg_spatial_pyramid_pooling ?a of
                         None \<Rightarrow> SpatialPyramidPooling example_framework [6, 12, 18]
                       | Some p \<Rightarrow> p) ?fm = Inr ?pooled"
    by (simp add: example_args_def example_framework_def height_of_def width_of_def)
  have 8: "height_of ?fm = Some 7" "(0::int) < 7" "(7::int) \<le> 224" "width_of ?fm = Some 7"
    by (simp_all add: height_of_def width_of_def)
  have 9: "height_of ?pooled = Some 7" "width_of ?pooled = Some 7"
    by (simp_all add: height_of_def width_of_def)
  show ?thesis
    using output_resolution_floor [OF 1 2 3 4 5 6 7 8(1,2,3) 8(4,2,3) 9]
    by (auto simp: numeral_3_eq_3)
qed

text \<open>
  The claim as stated fails: a 225 x 225 input gives an 8 x 8 feature map, the factor
  is \<open>225 div 8 = 28\<close>, and the output is 224 x 224.
\<close>

theorem output_resolution_counterexample:
  "map_sum id (shape \<circ> model_outputs)
     (snd (DeepLabV3_init example_framework
        (example_args (Layer (stride32_backbone (Some (None, Some 225, Some 225, Some 3)))) None
           (Some 225, Some 225, Some 3) None)))
   = Inr (None, Some 224, Some 224, Some 21)"
  by (simp add: DeepLabV3_init_def example_args_def example_framework_def check_weights_def
        resolve_inputs_def both_None_def assemble_def upsample_and_head_def
        stride32_backbone_def floordiv_def invoke_def
        height_of_def width_of_def Let_def default_head_def call_def keys_def
        init_layers init_fields py_range_def apply_layer_def load_and_finish_def)

text \<open>
  Claim C2, as amended. Take a nonzero weight decay and trainable variables among which
  the names that indicate a normalization parameter are the names containing
  \<^verbatim>\<open>"bn"\<close>, with at least one variable that is not a normalization parameter. Then the
  step hands to the optimizer, once, the primary loss plus the weight decay times the
  sum, over the variables that are not normalization parameters, of half the sum of
  their squared values (\<^verbatim>\<open>tf.nn.l2_loss\<close>), and returns the metrics.
\<close>

theorem train_step_regularization:
  assumes "weight_decay self \<noteq> 0"
    and "\<forall>var \<in> set (trainable_variables st).
           is_norm (var_name var) = py_in ''bn'' (var_name var)"
    and "filter (\<lambda>var. \<not> is_norm (var_name var)) (trainable_variables st) \<noteq> []"
    and "loss = compute_loss tr images y_true (forward tr (trainable_variables st) images)
                  sample_weight
                + weight_decay self *
                    sum_list (map (\<lambda>var. sum_list (map (\<lambda>x. x * x) (var_values var)) / 2)
                      (filter (\<lambda>var. \<not> is_norm (var_name var)) (trainable_variables st)))"
  shows "train_step tr self st (images, y_true, sample_weight) =
           Inr (\<lparr>trainable_variables = minimize tr loss (trainable_variables st),
                 minimize_calls = minimize_calls st @ [loss]\<rparr>,
                compute_metrics tr images y_true (forward tr (trainable_variables st) images)
                  sample_weight)"
proof -
  let ?vs = "filter (\<lambda>var. \<not> py_in ''bn'' (var_name var)) (trainable_variables st)"
  have f: "filter (\<lambda>var. \<not> is_norm (var_name var)) (trainable_variables st) = ?vs"
    using assms(2) by (intro filter_cong) auto
  have e: "sum_list (map (\<lambda>var. weight_decay self * l2_loss var) ?vs) =
        weight_decay self *
          sum_list (map (\<lambda>var. sum_list (map (\<lambda>x. x * x) (var_values var)) / 2) ?vs)"
    unfolding l2_loss_def by (rule sum_list_scale)
  show ?thesis using assms(1,3,4) unfolding f
    by (simp add: train_step_def collect_reg_losses_eq add_n_def Let_def e)
qed

theorem train_step_regularization_witness:
  "weight_decay (example_model (1 / 2)) \<noteq> 0 \<and>
   map (\<lambda>var. indicates_normalization (var_name var)) example_variables =
     map (\<lambda>var. py_in ''bn'' (var_name var)) example_variables \<and>
   filter (\<lambda>var. \<not> indicates_normalization (var_name var)) example_variables \<noteq> [] \<and>
   train_step example_trainer (example_model (1 / 2))
     \<lparr>trainable_variables = example_variables, minimize_calls = []\<rparr> ((), (), ())
     = Inr (\<lparr>trainable_variables = example_variables, minimize_calls = [4]\<rparr>, ())"
  using train_step_regularization
    [of "example_model (1 / 2)" "\<lparr>trainable_variables = example_variables, minimize_calls = []\<rparr>"
        indicates_normalization 4 example_trainer "()" "()" "()"]
  by (simp add: example_trainer_def example_model_def example_variables_def
        indicates_normalization_def)

text \<open>
  The claim as stated fails: with weight decay 1/2, primary loss 3 and a single
  penalised variable, a convolution kernel whose squared values sum to 4, the optimizer
  receives 4, not 5.
\<close>

theorem train_step_regularization_counterexample:
  "train_step example_trainer (example_model (1 / 2))
     \<lparr>trainable_variables = example_variables, minimize_calls = []\<rparr> ((), (), ())
     = Inr (\<lparr>trainable_variables = example_variables, minimize_calls = [4]\<rparr>, ()) \<and>
   compute_loss example_trainer () () () ()
     + spec_regularization indicates_normalization (1 / 2) example_variables = 5"
  by (simp add: train_step_def example_trainer_def example_model_def example_variables_def
        add_n_def l2_loss_def spec_regularization_def indicates_normalization_def Let_def)

text \<open>
  Claim C3 asks for a configuration error whenever a spatial dimension is unresolved
  after the inference, also when only one is. The code does not give one: with input
  shape \<open>(None, 224, 3)\<close>, a backbone that declares 224 x 224, and a pooling module
  supplied by the caller that accepts unknown dimensions, nothing is inferred, the check
  of line 83 passes, backbone and pooling are called, and line 102 raises TypeError.
\<close>

theorem partial_input_shape_TypeError:
  "DeepLabV3_init example_framework
     (example_args (Layer (stride32_backbone (Some (None, Some 224, Some 224, Some 3))))
        (Some pointwise_pooling) (None, Some 224, Some 3) None)
     = ([ParseModelInputs, BackboneCall, PoolingCall], Inl TypeError)"
  by (simp add: DeepLabV3_init_def example_args_def example_framework_def check_weights_def
        resolve_inputs_def both_None_def assemble_def upsample_and_head_def
        stride32_backbone_def pointwise_pooling_def floordiv_def
        height_of_def width_of_def Let_def)

text \<open>
  The part of that claim the code meets: when both height and width are \<open>None\<close>, the
  input shape becomes the backbone's declared input shape without its batch dimension;
  if both are still \<open>None\<close> construction fails with the ValueError of line 84.
\<close>

lemma input_shape_inferred_from_backbone:
  assumes "arg_backbone a = Layer bb" and "check_weights fw (arg_weights a) = None"
    and "arg_input_shape a = (None, None, c)"
    and "layer_input_shape bb = Some (b', h', w', c')"
  shows "resolve_inputs fw a bb =
           ([ParseModelInputs, LayersInput],
            Inr ((h', w', c'), layers_Input fw (arg_input_tensor a) (h', w', c'))) \<and>
         (h' = None \<and> w' = None \<longrightarrow>
            DeepLabV3_init fw a =
              ([ParseModelInputs, LayersInput], Inl (ValueError input_shape_msg))) \<and>
         (\<not> (h' = None \<and> w' = None) \<longrightarrow>
            DeepLabV3_init fw a =
              assemble fw a bb [ParseModelInputs, LayersInput] (h', w', c')
                (layers_Input fw (arg_input_tensor a) (h', w', c')))"
  using assms
  by (auto simp add: DeepLabV3_init_def resolve_inputs_def both_None_def Let_def)




text \<open>
  Claim C7, as amended. The configuration of the head is the base configuration of the
  layer (a dict) extended by the eight entries of the head, each with the value passed
  to the constructor. The configuration of a constructed model has exactly the six keys;
  \<open>num_classes\<close>, \<open>backbone\<close>, \<open>segmentation_head_activation\<close> and \<open>weight_decay\<close> are
  the constructor's arguments, \<open>spatial_pyramid_pooling\<close> and \<open>segmentation_head\<close> are
  the argument when one was passed and the default module built by the constructor
  otherwise.
\<close>

theorem get_config_contents:
  assumes "distinct (keys (base kw))"
  shows "set (keys (head_get_config base (SegmentationHead_init nc N fs acts dr ks act ub kw))) =
     set (keys (base kw)) \<union> set spec_head_keys \<and>
   distinct (keys (head_get_config base (SegmentationHead_init nc N fs acts dr ks act ub kw))) \<and>
   map (map_of (head_get_config base (SegmentationHead_init nc N fs acts dr ks act ub kw)))
       spec_head_keys =
     [Some (PyInt nc), Some (PyInt N), Some (PyInt fs), Some (PyStr acts), Some (PyFloat dr),
      Some (PyInt ks), Some (PyBool ub), Some (PyStr act)] \<and>
   (\<forall>k. k \<notin> set spec_head_keys \<longrightarrow>
      map_of (head_get_config base (SegmentationHead_init nc N fs acts dr ks act ub kw)) k =
        map_of (base kw) k) \<and>
   (\<forall>log m. DeepLabV3_init fw a = (log, Inr m) \<longrightarrow>
      (\<exists>bb. arg_backbone a = Layer bb \<and>
         get_config m =
           [(''num_classes'', Scalar (PyInt (arg_num_classes a))),
            (''backbone'', LayerObj bb),
            (''spatial_pyramid_pooling'',
               LayerObj (case arg_spatial_pyramid_pooling a of
                           None \<Rightarrow> SpatialPyramidPooling fw [6, 12, 18]
                         | Some p \<Rightarrow> p)),
            (''segmentation_head'',
               HeadObj (case arg_segmentation_head a of
                          None \<Rightarrow> Head (default_head (arg_num_classes a)
                                          (arg_segmentation_head_activation a))
                        | Some h \<Rightarrow> h)),
            (''segmentation_head_activation'',
               Scalar (PyStr (arg_segmentation_head_activation a))),
            (''weight_decay'', Scalar (PyFloat (arg_weight_decay a)))]))"
proof -
  let ?h = "SegmentationHead_init nc N fs acts dr ks act ub kw"
  let ?cfg = "head_get_config base ?h"
  have f: "SegmentationHead.num_classes ?h = nc" "convolutions ?h = N" "filters ?h = fs"
    "activations ?h = acts" "dropout ?h = dr" "kernel_size ?h = ks" "use_bias ?h = ub"
    "activation ?h = act" "layer_kwargs ?h = kw"
    by (simp_all add: SegmentationHead_init_def Let_def)
  have 1: "set (keys ?cfg) = set (keys (base kw)) \<union> set spec_head_keys"
    by (simp add: head_get_config_def py_dict_def keys_py_dict_from keys_simps f
          spec_head_keys_def Let_def)
  have 2: "distinct (keys ?cfg)"
    by (simp add: head_get_config_def py_dict_def distinct_py_dict_from keys_simps Let_def)
  have m: "map_of ?cfg = map_of [] ++ map_of (rev (base kw @
            [(''num_classes'', PyInt nc), (''convolutions'', PyInt N), (''filters'', PyInt fs),
             (''activations'', PyStr acts), (''dropout'', PyFloat dr),
             (''kernel_size'', PyInt ks), (''use_bias'', PyBool ub),
             (''activation'', PyStr act)]))"
    by (simp add: head_get_config_def py_dict_def map_of_py_dict_from f Let_def)
  have 3: "map (map_of ?cfg) spec_head_keys =
     [Some (PyInt nc), Some (PyInt N), Some (PyInt fs), Some (PyStr acts), Some (PyFloat dr),
      Some (PyInt ks), Some (PyBool ub), Some (PyStr act)]"
    unfolding m by (simp add: spec_head_keys_def)
  have 4: "\<forall>k. k \<notin> set spec_head_keys \<longrightarrow> map_of ?cfg k = map_of (base kw) k"
    unfolding m using map_of_rev_distinct [OF assms]
    by (simp add: spec_head_keys_def map_add_def split: option.splits)
  have 5: "\<forall>log m. DeepLabV3_init fw a = (log, Inr m) \<longrightarrow>
      (\<exists>bb. arg_backbone a = Layer bb \<and>
         get_config m =
           [(''num_classes'', Scalar (PyInt (arg_num_classes a))),
            (''backbone'', LayerObj bb),
            (''spatial_pyramid_pooling'',
               LayerObj (case arg_spatial_pyramid_pooling a of
                           None \<Rightarrow> SpatialPyramidPooling fw [6, 12, 18]
                         | Some p \<Rightarrow> p)),
            (''segmentation_head'',
               HeadObj (case arg_segmentation_head a of
                          None \<Rightarrow> Head (default_head (arg_num_classes a)
                                          (arg_segmentation_head_activation a))
                        | Some h \<Rightarrow> h)),
            (''segmentation_head_activation'',
               Scalar (PyStr (arg_segmentation_head_activation a))),
            (''weight_decay'', Scalar (PyFloat (arg_weight_decay a)))])"
  proof (intro allI impI)
    fix evs m
    assume i: "DeepLabV3_init fw a = (evs, Inr m)"
    then obtain bb where bb: "arg_backbone a = Layer bb"
      by (cases "arg_backbone a") (auto simp: DeepLabV3_init_def)
    let ?pooling = "case arg_spatial_pyramid_pooling a of
                      None \<Rightarrow> SpatialPyramidPooling fw [6, 12, 18]
                    | Some p \<Rightarrow> p"
    let ?head = "case arg_segmentation_head a of
                   None \<Rightarrow> Head (default_head (arg_num_classes a)
                                   (arg_segmentation_head_activation a))
                 | Some h \<Rightarrow> h"
    have "\<exists>inputs output. m =
        \<lparr>model_inputs = inputs, model_outputs = output, num_classes = arg_num_classes a,
         backbone = bb, spatial_pyramid_pooling = ?pooling, segmentation_head = ?head,
         segmentation_head_activation = arg_segmentation_head_activation a,
         weight_decay = arg_weight_decay a\<rparr>"
      using i bb
      by (auto simp: DeepLabV3_init_def assemble_def upsample_and_head_def
            load_and_finish_def Let_def
            split: option.splits if_splits prod.splits sum.splits)
    then show "\<exists>bb. arg_backbone a = Layer bb \<and>
         get_config m =
           [(''num_classes'', Scalar (PyInt (arg_num_classes a))),
            (''backbone'', LayerObj bb),
            (''spatial_pyramid_pooling'', LayerObj ?pooling),
            (''segmentation_head'', HeadObj ?head),
            (''segmentation_head_activation'',
               Scalar (PyStr (arg_segmentation_head_activation a))),
            (''weight_decay'', Scalar (PyFloat (arg_weight_decay a)))]"
      using bb by (auto simp: get_config_def)
  qed
  show ?thesis using 1 2 3 4 5 by blast
qed

theorem get_config_contents_witness:
  "distinct (keys (keras_Layer_get_config [(''name'', PyStr ''segmentation_head'')])) \<and>
   set (keys (head_get_config keras_Layer_get_config (default_head 21 ''softmax''))) =
     {''name'', ''trainable'', ''dtype''} \<union> set spec_head_keys \<and>
   map (map_of (head_get_config keras_Layer_get_config (default_head 21 ''softmax'')))
       spec_head_keys =
     [Some (PyInt 21), Some (PyInt 1), Some (PyInt 256), Some (PyStr ''relu''),
      Some (PyFloat (2 / 10)), Some (PyInt 1), Some (PyBool False), Some (PyStr ''softmax'')] \<and>
   (\<exists>log m. DeepLabV3_init example_framework
        (example_args (Layer (stride32_backbone (Some (None, Some 224, Some 224, Some 3)))) None
           (Some 224, Some 224, Some 3) None) = (log, Inr m) \<and>
      get_config m =
        [(''num_classes'', Scalar (PyInt 21)),
         (''backbone'', LayerObj (stride32_backbone (Some (None, Some 224, Some 224, Some 3)))),
         (''spatial_pyramid_pooling'',
            LayerObj (SpatialPyramidPooling example_framework [6, 12, 18])),
         (''segmentation_head'', HeadObj (Head (default_head 21 ''softmax''))),
         (''segmentation_head_activation'', Scalar (PyStr ''softmax'')),
         (''weight_decay'', Scalar (PyFloat (1 / 10000)))])"
proof -
  have d: "distinct (keys (keras_Layer_get_config [(''name'', PyStr ''segmentation_head'')]))"
    by (simp add: keras_Layer_get_config_def keys_def)
  have k: "set (keys (keras_Layer_get_config [(''name'', PyStr ''segmentation_head'')])) =
      {''name'', ''trainable'', ''dtype''}"
    by (simp add: keras_Layer_get_config_def keys_def)
  note t = get_config_contents
     [where base = keras_Layer_get_config and kw = "[(''name'', PyStr ''segmentation_head'')]"
        and nc = 21 and N = 1 and fs = 256 and acts = "''relu''" and dr = "2 / 10" and ks = 1
        and act = "''softmax''" and ub = False and fw = example_framework
        and a = "example_args (Layer (stride32_backbone (Some (None, Some 224, Some 224, Some 3)))) None
                   (Some 224, Some 224, Some 3) None"]
  show ?thesis
    using t d k example_construction
    by (simp add: default_head_def example_args_def)
qed

text \<open>
  The claim as stated fails: the configuration of the head also has the key
  \<open>name\<close> of the base configuration, and a model constructed without a pooling module
  reports the default module, not \<open>None\<close>.
\<close>

theorem get_config_counterexample:
  "set (keys (head_get_config keras_Layer_get_config docstring_head)) \<noteq> set spec_head_keys \<and>
   map_sum id get_config
     (snd (DeepLabV3_init example_framework
        (example_args (Layer (stride32_backbone (Some (None, Some 224, Some 224, Some 3)))) None
           (Some 224, Some 224, Some 3) None)))
   \<noteq> Inr (constructed_with
        (example_args (Layer (stride32_backbone (Some (None, Some 224, Some 224, Some 3)))) None
           (Some 224, Some 224, Some 3) None))"
proof -
  have "''name'' \<in> set (keys (head_get_config keras_Layer_get_config docstring_head))"
    by (simp add: head_get_config_def keras_Layer_get_config_def docstring_head_def
          py_dict_def keys_py_dict_from keys_simps Let_def)
  moreover have "''name'' \<notin> set spec_head_keys"
    by (simp add: spec_head_keys_def)
  ultimately have 1: "set (keys (head_get_config keras_Layer_get_config docstring_head)) \<noteq>
      set spec_head_keys" by blast
  have 2: "map_sum id get_config
     (snd (DeepLabV3_init example_framework
        (example_args (Layer (stride32_backbone (Some (None, Some 224, Some 224, Some 3)))) None
           (Some 224, Some 224, Some 3) None)))
   \<noteq> Inr (constructed_with
        (example_args (Layer (stride32_backbone (Some (None, Some 224, Some 224, Some 3)))) None
           (Some 224, Some 224, Some 3) None))"
    unfolding example_construction
    by (simp add: get_config_def constructed_with_def example_args_def)
  show ?thesis using 1 2 by (rule conjI)
qed

text \<open>
  Claim C8. A backbone that is not a layer makes construction raise the ValueError of
  line 62 with an empty log of framework calls, whatever the other arguments and the
  framework are: the check comes first.
\<close>

theorem non_layer_backbone_rejected_first:
  assumes "arg_backbone a = NotLayer r"
  shows "DeepLabV3_init fw a = ([], Inl (ValueError backbone_msg))"
  using assms by (simp add: DeepLabV3_init_def)

theorem non_layer_backbone_rejected_first_witness:
  "arg_backbone (example_args (NotLayer ''resnet50'') None (None, None, Some 3) (Some ''/missing.h5''))
     = NotLayer ''resnet50'' \<and>
   DeepLabV3_init example_framework
     (example_args (NotLayer ''resnet50'') None (None, None, Some 3) (Some ''/missing.h5''))
     = ([], Inl (ValueError backbone_msg))"
  using non_layer_backbone_rejected_first
    [of "example_args (NotLayer ''resnet50'') None (None, None, Some 3) (Some ''/missing.h5'')"
        "''resnet50''" example_framework]
  by (simp add: example_args_def)

subsection \<open>The segmentation head\<close>

text \<open>
  Claim C4. Called on a non-empty dict with integer keys, the head consumes the tensor
  stored under the smallest key and no other: the result is the classification layer
  applied to the blocks applied to that tensor.
\<close>

theorem head_selects_lowest_level:
  assumes "d \<noteq> []"
  shows "\<exists>x. map_of d (Min (set (keys d))) = Some x \<and>
           snd (call self (PyDict d)) =
             Inr (apply_layer (classification_layer self)
                    (snd (call_blocks self (zip (conv_layers self) (bn_layers self)) ([], x))))"
  using call_dict [OF assms, of self] by auto

theorem head_selects_lowest_level_witness:
  "[(4, fpn_p4), (3, fpn_p3), (5, fpn_p5)] \<noteq> [] \<and>
   snd (call docstring_head (PyDict [(4, fpn_p4), (3, fpn_p3), (5, fpn_p5)])) =
     Inr (apply_layer (classification_layer docstring_head)
            (snd (call_blocks docstring_head
               (zip (conv_layers docstring_head) (bn_layers docstring_head)) ([], fpn_p3))))"
  using head_selects_lowest_level [of "[(4, fpn_p4), (3, fpn_p3), (5, fpn_p5)]" docstring_head]
  by (simp add: keys_def)

text \<open>
  Claim C5. A head constructed with convolution count \<open>N\<close> applies, to the selected
  tensor \<open>x\<close>, exactly \<open>N\<close> blocks in the order of their index, each one convolution,
  normalisation, activation and (when the dropout rate is nonzero) dropout, every
  convolution with the configured filters, kernel size and bias setting, and then the
  classification projection; with \<open>N = 0\<close> the projection is applied to \<open>x\<close> itself.
  The layers the forward pass calls are these and no others.
\<close>

theorem head_applies_blocks_in_order:
  assumes "0 \<le> N" and "d \<noteq> []" and "map_of d (Min (set (keys d))) = Some x"
  shows "\<exists>y. snd (call (SegmentationHead_init nc N fs acts dr ks act ub kw) (PyDict d)) = Inr y \<and>
           history y = history x @ concat (map (spec_block fs ks ub acts dr) [0..<nat N])
                         @ [spec_projection nc act] \<and>
           fst (call (SegmentationHead_init nc N fs acts dr ks act ub kw) (PyDict d)) =
             concat (map (spec_block fs ks ub acts dr) [0..<nat N]) @ [spec_projection nc act] \<and>
           int (length (map (spec_block fs ks ub acts dr) [0..<nat N])) = N \<and>
           (N = 0 \<longrightarrow> y = apply_layer (spec_projection nc act) x)"
proof -
  let ?h = "SegmentationHead_init nc N fs acts dr ks act ub kw"
  let ?ps = "zip (conv_layers ?h) (bn_layers ?h)"
  let ?y = "apply_layer (classification_layer ?h) (snd (call_blocks ?h ?ps ([], x)))"
  have c: "call ?h (PyDict d) =
             (fst (call_blocks ?h ?ps ([], x)) @ [classification_layer ?h], Inr ?y)"
    using call_dict [OF assms(2), of ?h] assms(3) by simp
  have cl: "\<And>M. classification_layer (SegmentationHead_init nc M fs acts dr ks act ub kw) =
      spec_projection nc act"
    by (simp add: init_fields spec_projection_def)
  have fields: "activations ?h = acts" "dropout ?h = dr" "dropout_layer ?h = Dropout dr"
    by (simp_all add: init_fields)
  have zm: "\<And>f g (xs :: nat list).
      map (\<lambda>p. [fst p, snd p, Activation acts] @ (if dr \<noteq> 0 then [Dropout dr] else []))
        (zip (map f xs) (map g xs)) =
      map (\<lambda>i. [f i, g i, Activation acts] @ (if dr \<noteq> 0 then [Dropout dr] else [])) xs"
    by (simp add: zip_map_map zip_same_conv_map del: append.simps)
  have sb: "spec_block fs ks ub acts dr =
      (\<lambda>i. [Conv2D (''segmentation_head_conv_'' @ string_of_nat i) fs ks ''same'' ub None None,
            BatchNormalization (''segmentation_head_norm_'' @ string_of_nat i),
            Activation acts] @ (if dr \<noteq> 0 then [Dropout dr] else []))"
    by (rule ext) (simp add: spec_block_def)
  have h: "history ?y = history x @ concat (map (spec_block fs ks ub acts dr) [0..<nat N])
             @ [spec_projection nc act]"
    unfolding history_apply_layer history_call_blocks init_layers fields cl py_range_def zm sb
    by simp
  have l: "fst (call_blocks ?h ?ps ([], x)) @ [classification_layer ?h] =
             concat (map (spec_block fs ks ub acts dr) [0..<nat N]) @ [spec_projection nc act]"
    unfolding call_blocks_called init_layers fields cl py_range_def zm sb
    by simp
  have z: "N = 0 \<longrightarrow> ?y = apply_layer (spec_projection nc act) x"
    by (simp add: init_layers py_range_def cl)
  have r: "snd (call ?h (PyDict d)) = Inr ?y" using c by simp
  have f: "fst (call ?h (PyDict d)) =
             concat (map (spec_block fs ks ub acts dr) [0..<nat N]) @ [spec_projection nc act]"
    using c l by simp
  have n: "int (length (map (spec_block fs ks ub acts dr) [0..<nat N])) = N"
    using assms(1) by simp
  show ?thesis using r h f n z by (intro exI [where x = ?y] conjI)
qed

theorem head_applies_blocks_in_order_witness:
  "(0::int) \<le> 1 \<and> [(1, fpn_p3)] \<noteq> [] \<and>
   map_of [(1, fpn_p3)] (Min (set (keys [(1::int, fpn_p3)]))) = Some fpn_p3 \<and>
   (\<exists>y. snd (call (SegmentationHead_init 11 1 256 ''relu'' (1 / 5) 1 ''softmax'' False [])
           (PyDict [(1, fpn_p3)])) = Inr y \<and>
        history y =
          [External ''p3'',
           Conv2D ''segmentation_head_conv_0'' 256 1 ''same'' False None None,
           BatchNormalization ''segmentation_head_norm_0'',
           Activation ''relu'',
           Dropout (1 / 5),
           Conv2D ''segmentation_output'' 11 1 ''same'' False (Some ''softmax'') (Some ''float32'')] \<and>
        fst (call (SegmentationHead_init 11 1 256 ''relu'' (1 / 5) 1 ''softmax'' False [])
           (PyDict [(1, fpn_p3)])) =
          [Conv2D ''segmentation_head_conv_0'' 256 1 ''same'' False None None,
           BatchNormalization ''segmentation_head_norm_0'',
           Activation ''relu'',
           Dropout (1 / 5),
           Conv2D ''segmentation_output'' 11 1 ''same'' False (Some ''softmax'') (Some ''float32'')])"
  using head_applies_blocks_in_order [of 1 "[(1, fpn_p3)]" fpn_p3 11 256 "''relu''" "1 / 5" 1
          "''softmax''" False "[]"]
  by (simp add: keys_def fpn_p3_def spec_block_def spec_projection_def string_of_nat_digits)

text \<open>
  Claim C9. An input that is not a dict makes \<open>call\<close> raise the ValueError of line
  301 having called no layer: no convolution, normalisation, activation, dropout or
  projection was applied.
\<close>

theorem head_rejects_non_dict:
  assumes "\<forall>d. inputs \<noteq> PyDict d"
  shows "call self inputs = ([], Inl (ValueError ''Expect inputs to be a dict.''))"
  using assms by (cases inputs) (simp_all add: call_def)

theorem head_rejects_non_dict_witness:
  "(\<forall>d. PyTensor fpn_p3 \<noteq> PyDict d) \<and>
   call docstring_head (PyTensor fpn_p3) = ([], Inl (ValueError ''Expect inputs to be a dict.''))"
  using head_rejects_non_dict [of "PyTensor fpn_p3" docstring_head] by simp

text \<open>
  Claim C10. On the empty dict \<open>call\<close> raises StopIteration, having called no layer,
  and not the ValueError of the non-dict inputs; no dict at all makes it raise a
  ValueError.
\<close>

theorem head_empty_dict_StopIteration:
  "call self (PyDict []) = ([], Inl StopIteration) \<and>
   snd (call self (PyDict [])) \<noteq> Inl (ValueError ''Expect inputs to be a dict.'') \<and>
   (\<forall>d m. snd (call self (PyDict d)) \<noteq> Inl (ValueError m))"
  by (auto simp: call_def keys_def split: list.splits option.splits prod.splits)

end
